theory Spec2Isabelle
  imports Main "HOL-Library.Sublist"
begin

section \<open>Inbound Slack message admission: a shallow embedding\<close>

text \<open>
  The development embeds two source units.
  \<^item> \<^verbatim>\<open>src/channels/mention-gating.ts\<close>: the pure function \<^verbatim>\<open>resolveMentionGating\<close>.
  \<^item> The monitor's \<^verbatim>\<open>prepareSlackMessage\<close>: one asynchronous function that runs a fixed
    sequence of gates over an inbound message event and either returns \<^verbatim>\<open>null\<close> or an
    envelope.

  JavaScript values are modelled as follows. A string is a \<^typ>\<open>string\<close> whose characters
  stand for code units; an optional property (\<^verbatim>\<open>string | undefined\<close>) is a
  \<^typ>\<open>string option\<close>; truthiness of such a value is \<open>truthy\<close>; the operator \<^verbatim>\<open>??\<close> is
  \<open>nullish\<close>. Every \<^verbatim>\<open>return null\<close> of the function is a constructor of \<open>drop_site\<close>, so
  that the model records which return statement fired. The awaited collaborators are
  functions or already-resolved data, held in the context record (where the source
  reaches them through \<^verbatim>\<open>ctx\<close>) or in the record \<open>Externals\<close> (where the source imports
  them from modules that are not part of the embedded files); they are assumed to return
  normally. Calls that only write a log line or enqueue a system event, and the envelope
  fields built only from formatting helpers (\<^verbatim>\<open>Body\<close>, the thread-starter block, the
  channel description), do not influence any return statement and are left out.
\<close>

subsection \<open>JavaScript helpers\<close>

definition truthy :: "string option \<Rightarrow> bool" where
  "truthy s = (case s of None \<Rightarrow> False | Some v \<Rightarrow> v \<noteq> [])"

definition truthyB :: "bool option \<Rightarrow> bool" where
  "truthyB b = (case b of None \<Rightarrow> False | Some v \<Rightarrow> v)"

definition nullish :: "'a option \<Rightarrow> 'a option \<Rightarrow> 'a option" where
  "nullish a b = (case a of None \<Rightarrow> b | Some v \<Rightarrow> Some v)"

definition orDefault :: "'a option \<Rightarrow> 'a \<Rightarrow> 'a" where
  "orDefault a d = (case a of None \<Rightarrow> d | Some v \<Rightarrow> v)"

text \<open>A template literal prints an undefined value as the word \<^verbatim>\<open>undefined\<close>.\<close>

definition interp :: "string option \<Rightarrow> string" where
  "interp s = (case s of None \<Rightarrow> ''undefined'' | Some v \<Rightarrow> v)"

text \<open>
  \<^verbatim>\<open>String.prototype.trim\<close> strips white space and line terminators at both ends. Among
  the code units below 256 these are tab, line feed, vertical tab, form feed, carriage
  return, space and the no-break space.
\<close>

definition isJsSpace :: "char \<Rightarrow> bool" where
  "isJsSpace c = (of_char c \<in> {9, 10, 11, 12, 13, 32, 160 :: nat})"

definition trim :: "string \<Rightarrow> string" where
  "trim s = rev (dropWhile isJsSpace (rev (dropWhile isJsSpace s)))"

text \<open>\<^verbatim>\<open>String.prototype.includes\<close>: the needle occurs as a contiguous run.\<close>

fun includes_str :: "string \<Rightarrow> string \<Rightarrow> bool" where
  "includes_str [] needle = (needle = [])"
| "includes_str (c # cs) needle = (prefix needle (c # cs) \<or> includes_str cs needle)"

text \<open>
  The regular expression \<^verbatim>\<open>/<@[^>]+>/\<close> tested against a text: somewhere the text holds
  \<^verbatim>\<open><@\<close>, then at least one code unit other than \<^verbatim>\<open>>\<close>, then \<^verbatim>\<open>>\<close>.
\<close>

fun mentionTokenTest :: "string \<Rightarrow> bool" where
  "mentionTokenTest [] = False"
| "mentionTokenTest (c # cs) =
     ((c = CHR ''<'' \<and>
       (case cs of
          [] \<Rightarrow> False
        | d # r \<Rightarrow> d = CHR ''@'' \<and> r \<noteq> [] \<and> hd r \<noteq> CHR ''>'' \<and> CHR ''>'' \<in> set r))
      \<or> mentionTokenTest cs)"

subsection \<open>The mention gate (mention-gating.ts)\<close>

record MentionGateParams =
  requireMention :: bool
  canDetectMention :: bool
  wasMentioned :: bool
  implicitMention :: "bool option"
  shouldBypassMention :: "bool option"

record MentionGateResult =
  effectiveWasMentioned :: bool
  shouldSkip :: bool

definition resolveMentionGating :: "MentionGateParams \<Rightarrow> MentionGateResult" where
  "resolveMentionGating params =
     (let implicit = (implicitMention params = Some True);
          bypass = (shouldBypassMention params = Some True);
          effective = (wasMentioned params \<or> implicit \<or> bypass);
          skip = (requireMention params \<and> canDetectMention params \<and> \<not> effective)
      in \<lparr> effectiveWasMentioned = effective, shouldSkip = skip \<rparr>)"

subsection \<open>Data of the Slack monitor\<close>

record SlackMessageEvent =
  channel :: string
  channel_type :: "string option"
  user :: "string option"
  bot_id :: "string option"
  msg_text :: "string option"
  ts :: "string option"
  thread_ts :: "string option"
  parent_user_id :: "string option"
  username :: "string option"
  files :: "string list option"

record ChannelInfo =
  info_name :: "string option"
  info_type :: "string option"
  info_topic :: "string option"
  info_purpose :: "string option"

text \<open>What \<^verbatim>\<open>resolveSlackChannelConfig\<close> returns, as far as the function reads it.\<close>

record SlackChannelConfig =
  cc_allowBots :: "bool option"
  cc_requireMention :: "bool option"
  cc_users :: "string list option"

text \<open>
  The fields and services of \<^verbatim>\<open>ctx\<close> that the function reads. \<open>resolveUserName\<close> gives
  \<^verbatim>\<open>sender?.name\<close> of the looked-up user.
\<close>

record SlackMonitorContext =
  resolveChannelName :: "string \<Rightarrow> ChannelInfo"
  isChannelAllowed :: "string \<Rightarrow> string option \<Rightarrow> string option \<Rightarrow> bool"
  resolveUserName :: "string \<Rightarrow> string option"
  botUserId :: "string option"
  teamId :: "string option"
  defaultRequireMention :: "bool option"
  dmEnabled :: bool
  dmPolicy :: string
  ackReactionScope :: string
  threadInheritParent :: bool
  threadHistoryScope :: string

record ResolvedSlackAccount =
  accountId :: string
  config_allowBots :: "bool option"

record SlackOpts =
  opt_source :: string
  opt_wasMentioned :: "bool option"

record Params =
  ctx :: SlackMonitorContext
  account :: ResolvedSlackAccount
  message :: SlackMessageEvent
  opts :: SlackOpts

record ResolvedAgentRoute =
  route_agentId :: string
  route_accountId :: string
  route_sessionKey :: string

record SlackMedia =
  media_path :: "string option"
  media_contentType :: "string option"
  media_placeholder :: "string option"

record ThreadKeys =
  tk_sessionKey :: string
  tk_parentSessionKey :: "string option"

text \<open>The pending pairing requests: the code issued for a (channel, sender id) pair.\<close>

type_synonym pairing_store = "(string \<times> string) \<rightharpoonup> string"

text \<open>
  The imported functions whose modules are not among the embedded files, each closed
  over the configuration object \<^verbatim>\<open>cfg\<close> where the source passes it:
  \<open>cfg_allowBots\<close> is \<^verbatim>\<open>cfg.channels?.slack?.allowBots\<close>;
  \<open>resolveSlackChannelConfig\<close> takes the channel id, the channel name and the default
  mention requirement; \<open>resolveSlackEffectiveAllowFrom\<close> is the resolved
  \<^verbatim>\<open>allowFromLower\<close>; \<open>resolveAgentRoute\<close> takes the account id, the team id, the peer
  kind and the peer id; \<open>buildPairingReply\<close> takes the id line and the code;
  \<open>resolveSlackUserAllowed\<close> and \<open>isSlackSenderAllowListed\<close> take the allow list, the
  sender id and the sender name. \<open>generatePairingCode\<close> and \<open>threadScopedKey\<close> are
  the parameters of the two functions modelled further down.
\<close>

record Externals =
  normalizeSlackChannelType :: "string option \<Rightarrow> string \<Rightarrow> string option"
  resolveSlackChannelConfig :: "string \<Rightarrow> string option \<Rightarrow> bool option \<Rightarrow> SlackChannelConfig option"
  cfg_allowBots :: "bool option"
  resolveSlackEffectiveAllowFrom :: "string list"
  allowListMatches :: "string list \<Rightarrow> string \<Rightarrow> bool"
  buildPairingReply :: "string \<Rightarrow> string \<Rightarrow> string"
  generatePairingCode :: "pairing_store \<Rightarrow> string"
  resolveAgentRoute :: "string \<Rightarrow> string option \<Rightarrow> string \<Rightarrow> string \<Rightarrow> ResolvedAgentRoute"
  buildMentionRegexes :: "string \<Rightarrow> string list"
  matchesMentionPatterns :: "string \<Rightarrow> string list \<Rightarrow> bool"
  resolveSlackUserAllowed :: "string list option \<Rightarrow> string \<Rightarrow> string \<Rightarrow> bool"
  isSlackSenderAllowListed :: "string list \<Rightarrow> string \<Rightarrow> string \<Rightarrow> bool"
  shouldHandleTextCommands :: bool
  hasControlCommand :: "string \<Rightarrow> bool"
  resolveSlackMedia :: "string list option \<Rightarrow> SlackMedia option"
  resolveAckReaction :: "string \<Rightarrow> string option"
  threadScopedKey :: "string \<Rightarrow> string \<Rightarrow> string"

text \<open>The envelope, without the fields that only formatting helpers fill.\<close>

record CtxPayload =
  RawBody :: string
  CommandBody :: string
  From :: string
  To :: string
  SessionKey :: string
  AccountId :: string
  ChatType :: string
  SenderName :: string
  SenderId :: "string option"
  MessageSid :: "string option"
  ReplyToId :: "string option"
  ParentSessionKey :: "string option"
  WasMentioned :: "bool option"
  MediaPath :: "string option"
  MediaType :: "string option"
  CommandAuthorized :: bool
  OriginatingTo :: string

text \<open>
  The returned object. \<open>prepared_ackReactionPromise\<close> tells whether the promise is
  non-null, that is, whether the reaction call was issued.
\<close>

record PreparedSlackMessage =
  prepared_replyTarget :: string
  prepared_ctxPayload :: CtxPayload
  prepared_isDirectMessage :: bool
  prepared_isRoomish :: bool
  prepared_historyKey :: string
  prepared_ackReactionMessageTs :: "string option"
  prepared_ackReactionValue :: string
  prepared_ackReactionPromise :: bool

text \<open>The return statements that yield \<^verbatim>\<open>null\<close>, in source order.\<close>

datatype drop_site =
    SelfBotMessage
  | BotsNotAllowed
  | DmMissingUser
  | MissingSender
  | ChannelNotAllowed
  | DmMissingUserId
  | DmsDisabled
  | DmUnauthorized
  | ChannelUserUnauthorized
  | NoMention
  | EmptyBody
  | EmptyReplyTarget

datatype outcome = Dropped drop_site | Prepared PreparedSlackMessage

fun returnsNull :: "outcome \<Rightarrow> bool" where
  "returnsNull (Dropped d) = True"
| "returnsNull (Prepared m) = False"

text \<open>
  The outbound calls: \<^verbatim>\<open>sendMessageSlack(channel, text, ...)\<close> and
  \<^verbatim>\<open>reactSlackMessage(channel, ts, value, ...)\<close>. A rejected send is caught and a rejected
  reaction is mapped to \<^verbatim>\<open>false\<close>, so neither changes what the function returns.
\<close>

datatype effect =
    SendMessageSlack string string
  | ReactSlackMessage string string string

fun isPairingReply :: "effect \<Rightarrow> bool" where
  "isPairingReply (SendMessageSlack c t) = True"
| "isPairingReply (ReactSlackMessage c t v) = False"

fun isReaction :: "effect \<Rightarrow> bool" where
  "isReaction (SendMessageSlack c t) = False"
| "isReaction (ReactSlackMessage c t v) = True"

record Completed =
  returned :: outcome
  effects :: "effect list"
  store :: pairing_store

subsection \<open>Collaborators modelled from the specification\<close>

text \<open>
  Modelled from the spec: \<^verbatim>\<open>upsertChannelPairingRequest\<close> of the pairing store
  (\<^verbatim>\<open>pairing/pairing-store.js\<close>) is not among the embedded files. The specification says
  that it looks up or creates a pending pairing request keyed by (channel kind, sender
  id), that creation is idempotent, and that it returns the code and a created flag. The
  code of a new request comes from the parameter \<open>gen\<close>.
\<close>

definition upsertChannelPairingRequest ::
    "(pairing_store \<Rightarrow> string) \<Rightarrow> pairing_store \<Rightarrow> string \<Rightarrow> string
       \<Rightarrow> (string \<times> bool) \<times> pairing_store" where
  "upsertChannelPairingRequest gen st chan ident =
     (case st (chan, ident) of
        Some code \<Rightarrow> ((code, False), st)
      | None \<Rightarrow> ((gen st, True), st((chan, ident) \<mapsto> gen st)))"

text \<open>
  Modelled from the spec: \<^verbatim>\<open>resolveThreadSessionKeys\<close> (\<^verbatim>\<open>routing/session-key.js\<close>) is
  not among the embedded files. The specification says that a thread reply gets a
  thread-scoped session key and the parent session key it was handed, and that otherwise
  the thread keys equal the base session key and the parent key is absent. How the
  thread-scoped key is formed from the base key and the thread id is the parameter
  \<open>scoped\<close>.
\<close>

definition resolveThreadSessionKeys ::
    "(string \<Rightarrow> string \<Rightarrow> string) \<Rightarrow> string \<Rightarrow> string option \<Rightarrow> string option \<Rightarrow> ThreadKeys" where
  "resolveThreadSessionKeys scoped baseKey threadId parentKey =
     (case threadId of
        None \<Rightarrow> \<lparr> tk_sessionKey = baseKey, tk_parentSessionKey = None \<rparr>
      | Some t \<Rightarrow> \<lparr> tk_sessionKey = scoped baseKey t, tk_parentSessionKey = parentKey \<rparr>)"

subsection \<open>The local values of prepareSlackMessage, in source order\<close>

definition needsChannelInfo :: "Params \<Rightarrow> bool" where
  "needsChannelInfo p =
     (\<not> truthy (channel_type (message p)) \<or> channel_type (message p) \<noteq> Some ''im'')"

definition channelInfo :: "Params \<Rightarrow> ChannelInfo" where
  "channelInfo p =
     (if needsChannelInfo p then resolveChannelName (ctx p) (channel (message p))
      else \<lparr> info_name = None, info_type = None, info_topic = None, info_purpose = None \<rparr>)"

definition channelType :: "Params \<Rightarrow> string option" where
  "channelType p =
     (if needsChannelInfo p
      then nullish (channel_type (message p)) (info_type (channelInfo p))
      else channel_type (message p))"

definition channelName :: "Params \<Rightarrow> string option" where
  "channelName p = info_name (channelInfo p)"

definition resolvedChannelType :: "Externals \<Rightarrow> Params \<Rightarrow> string option" where
  "resolvedChannelType x p = normalizeSlackChannelType x (channelType p) (channel (message p))"

definition isDirectMessage :: "Externals \<Rightarrow> Params \<Rightarrow> bool" where
  "isDirectMessage x p = (resolvedChannelType x p = Some ''im'')"

definition isGroupDm :: "Externals \<Rightarrow> Params \<Rightarrow> bool" where
  "isGroupDm x p = (resolvedChannelType x p = Some ''mpim'')"

definition isRoom :: "Externals \<Rightarrow> Params \<Rightarrow> bool" where
  "isRoom x p =
     (resolvedChannelType x p = Some ''channel'' \<or> resolvedChannelType x p = Some ''group'')"

definition isRoomish :: "Externals \<Rightarrow> Params \<Rightarrow> bool" where
  "isRoomish x p = (isRoom x p \<or> isGroupDm x p)"

definition channelConfig :: "Externals \<Rightarrow> Params \<Rightarrow> SlackChannelConfig option" where
  "channelConfig x p =
     (if isRoom x p
      then resolveSlackChannelConfig x (channel (message p)) (channelName p)
             (defaultRequireMention (ctx p))
      else None)"

definition allowBots :: "Externals \<Rightarrow> Params \<Rightarrow> bool" where
  "allowBots x p =
     orDefault
       (nullish (nullish (Option.bind (channelConfig x p) cc_allowBots)
                         (config_allowBots (account p)))
                (cfg_allowBots x))
       False"

definition isBotMessage :: "Params \<Rightarrow> bool" where
  "isBotMessage p = truthy (bot_id (message p))"

definition isSelfMessage :: "Params \<Rightarrow> bool" where
  "isSelfMessage p =
     (truthy (user (message p)) \<and> truthy (botUserId (ctx p))
      \<and> user (message p) = botUserId (ctx p))"

definition senderId :: "Params \<Rightarrow> string option" where
  "senderId p =
     nullish (user (message p)) (if isBotMessage p then bot_id (message p) else None)"

definition allowFromLower :: "Externals \<Rightarrow> string list" where
  "allowFromLower x = resolveSlackEffectiveAllowFrom x"

definition route :: "Externals \<Rightarrow> Params \<Rightarrow> ResolvedAgentRoute" where
  "route x p =
     resolveAgentRoute x (accountId (account p))
       (if truthy (teamId (ctx p)) then teamId (ctx p) else None)
       (if isDirectMessage x p then ''dm'' else if isRoom x p then ''channel'' else ''group'')
       (if isDirectMessage x p then orDefault (user (message p)) ''unknown''
        else channel (message p))"

definition mentionRegexes :: "Externals \<Rightarrow> Params \<Rightarrow> string list" where
  "mentionRegexes x p = buildMentionRegexes x (route_agentId (route x p))"

definition textHasBotMention :: "Params \<Rightarrow> bool" where
  "textHasBotMention p =
     (truthy (botUserId (ctx p)) \<and>
      (case msg_text (message p) of
         None \<Rightarrow> False
       | Some t \<Rightarrow> includes_str t (''<@'' @ interp (botUserId (ctx p)) @ ''>'')))"

definition wasMentioned' :: "Externals \<Rightarrow> Params \<Rightarrow> bool" where
  "wasMentioned' x p =
     orDefault (opt_wasMentioned (opts p))
       (\<not> isDirectMessage x p \<and>
        (textHasBotMention p \<or>
         matchesMentionPatterns x (orDefault (msg_text (message p)) []) (mentionRegexes x p)))"

definition implicitMention' :: "Externals \<Rightarrow> Params \<Rightarrow> bool" where
  "implicitMention' x p =
     (\<not> isDirectMessage x p \<and> truthy (botUserId (ctx p)) \<and> truthy (thread_ts (message p))
      \<and> parent_user_id (message p) = botUserId (ctx p))"

definition senderName :: "Params \<Rightarrow> string" where
  "senderName p =
     orDefault
       (nullish
          (nullish
             (nullish
                (case user (message p) of
                   None \<Rightarrow> None
                 | Some u \<Rightarrow> if u = [] then None else resolveUserName (ctx p) u)
                (map_option trim (username (message p))))
             (user (message p)))
          (bot_id (message p)))
       ''unknown''"

text \<open>
  From here on the source uses \<^verbatim>\<open>senderId\<close> as a string: the function has returned
  before this point when it is not a non-empty string.
\<close>

definition channelUserAuthorized :: "Externals \<Rightarrow> Params \<Rightarrow> bool" where
  "channelUserAuthorized x p =
     (if isRoom x p
      then resolveSlackUserAllowed x (Option.bind (channelConfig x p) cc_users)
             (orDefault (senderId p) []) (senderName p)
      else True)"

definition commandAuthorized :: "Externals \<Rightarrow> Params \<Rightarrow> bool" where
  "commandAuthorized x p =
     (isSlackSenderAllowListed x (allowFromLower x) (orDefault (senderId p) []) (senderName p)
      \<and> channelUserAuthorized x p)"

definition hasAnyMention :: "Params \<Rightarrow> bool" where
  "hasAnyMention p = mentionTokenTest (orDefault (msg_text (message p)) [])"

definition allowTextCommands :: "Externals \<Rightarrow> bool" where
  "allowTextCommands x = shouldHandleTextCommands x"

definition shouldRequireMention :: "Externals \<Rightarrow> Params \<Rightarrow> bool option" where
  "shouldRequireMention x p =
     (if isRoom x p
      then nullish (Option.bind (channelConfig x p) cc_requireMention)
             (defaultRequireMention (ctx p))
      else Some False)"

definition shouldBypassMention' :: "Externals \<Rightarrow> Params \<Rightarrow> bool" where
  "shouldBypassMention' x p =
     (allowTextCommands x \<and> isRoom x p \<and> truthyB (shouldRequireMention x p)
      \<and> \<not> wasMentioned' x p \<and> \<not> hasAnyMention p \<and> commandAuthorized x p
      \<and> hasControlCommand x (orDefault (msg_text (message p)) []))"

definition canDetectMention' :: "Externals \<Rightarrow> Params \<Rightarrow> bool" where
  "canDetectMention' x p = (truthy (botUserId (ctx p)) \<or> length (mentionRegexes x p) > 0)"

definition mentionGate :: "Externals \<Rightarrow> Params \<Rightarrow> MentionGateResult" where
  "mentionGate x p =
     resolveMentionGating
       \<lparr> requireMention = truthyB (shouldRequireMention x p),
         canDetectMention = canDetectMention' x p,
         wasMentioned = wasMentioned' x p,
         implicitMention = Some (implicitMention' x p),
         shouldBypassMention = Some (shouldBypassMention' x p) \<rparr>"

definition effectiveWasMentioned' :: "Externals \<Rightarrow> Params \<Rightarrow> bool" where
  "effectiveWasMentioned' x p = effectiveWasMentioned (mentionGate x p)"

definition media :: "Externals \<Rightarrow> Params \<Rightarrow> SlackMedia option" where
  "media x p = resolveSlackMedia x (files (message p))"

definition rawBody :: "Externals \<Rightarrow> Params \<Rightarrow> string" where
  "rawBody x p =
     (let trimmed = trim (orDefault (msg_text (message p)) [])
      in if trimmed \<noteq> [] then trimmed
         else if truthy (Option.bind (media x p) media_placeholder)
              then orDefault (Option.bind (media x p) media_placeholder) []
              else [])"

definition ackReaction :: "Externals \<Rightarrow> Params \<Rightarrow> string option" where
  "ackReaction x p = resolveAckReaction x (route_agentId (route x p))"

definition ackReactionValue :: "Externals \<Rightarrow> Params \<Rightarrow> string" where
  "ackReactionValue x p = orDefault (ackReaction x p) []"

definition shouldAckReaction :: "Externals \<Rightarrow> Params \<Rightarrow> bool" where
  "shouldAckReaction x p =
     (if \<not> truthy (ackReaction x p) then False
      else if ackReactionScope (ctx p) = ''all'' then True
      else if ackReactionScope (ctx p) = ''direct'' then isDirectMessage x p
      else if ackReactionScope (ctx p) = ''group-all'' then isRoomish x p
      else if ackReactionScope (ctx p) = ''group-mentions'' then
        (if \<not> isRoom x p then False
         else if \<not> truthyB (shouldRequireMention x p) then False
         else if \<not> canDetectMention' x p then False
         else effectiveWasMentioned' x p)
      else False)"

definition ackReactionMessageTs :: "Params \<Rightarrow> string option" where
  "ackReactionMessageTs p = ts (message p)"

definition ackReactionPromise :: "Externals \<Rightarrow> Params \<Rightarrow> bool" where
  "ackReactionPromise x p =
     (shouldAckReaction x p \<and> truthy (ackReactionMessageTs p) \<and> ackReactionValue x p \<noteq> [])"

definition slackFrom :: "Externals \<Rightarrow> Params \<Rightarrow> string" where
  "slackFrom x p =
     (if isDirectMessage x p then ''slack:'' @ interp (user (message p))
      else if isRoom x p then ''slack:channel:'' @ channel (message p)
      else ''slack:group:'' @ channel (message p))"

definition baseSessionKey :: "Externals \<Rightarrow> Params \<Rightarrow> string" where
  "baseSessionKey x p = route_sessionKey (route x p)"

definition threadTs :: "Params \<Rightarrow> string option" where
  "threadTs p = thread_ts (message p)"

definition hasThreadTs :: "Params \<Rightarrow> bool" where
  "hasThreadTs p = (case threadTs p of None \<Rightarrow> False | Some t \<Rightarrow> length t > 0)"

definition isThreadReply :: "Params \<Rightarrow> bool" where
  "isThreadReply p =
     (hasThreadTs p \<and> (threadTs p \<noteq> ts (message p) \<or> truthy (parent_user_id (message p))))"

definition threadKeys :: "Externals \<Rightarrow> Params \<Rightarrow> ThreadKeys" where
  "threadKeys x p =
     resolveThreadSessionKeys (threadScopedKey x) (baseSessionKey x p)
       (if isThreadReply p then threadTs p else None)
       (if isThreadReply p \<and> threadInheritParent (ctx p) then Some (baseSessionKey x p)
        else None)"

definition sessionKey :: "Externals \<Rightarrow> Params \<Rightarrow> string" where
  "sessionKey x p = tk_sessionKey (threadKeys x p)"

definition historyKey :: "Externals \<Rightarrow> Params \<Rightarrow> string" where
  "historyKey x p =
     (if isThreadReply p \<and> threadHistoryScope (ctx p) = ''thread'' then sessionKey x p
      else channel (message p))"

definition slackTo :: "Externals \<Rightarrow> Params \<Rightarrow> string" where
  "slackTo x p =
     (if isDirectMessage x p then ''user:'' @ interp (user (message p))
      else ''channel:'' @ channel (message p))"

definition ctxPayload :: "Externals \<Rightarrow> Params \<Rightarrow> CtxPayload" where
  "ctxPayload x p =
     \<lparr> RawBody = rawBody x p,
       CommandBody = rawBody x p,
       From = slackFrom x p,
       To = slackTo x p,
       SessionKey = sessionKey x p,
       AccountId = route_accountId (route x p),
       ChatType = (if isDirectMessage x p then ''direct''
                   else if isRoom x p then ''room'' else ''group''),
       SenderName = senderName p,
       SenderId = senderId p,
       MessageSid = ts (message p),
       ReplyToId = nullish (thread_ts (message p)) (ts (message p)),
       ParentSessionKey = tk_parentSessionKey (threadKeys x p),
       WasMentioned = (if isRoomish x p then Some (effectiveWasMentioned' x p) else None),
       MediaPath = Option.bind (media x p) media_path,
       MediaType = Option.bind (media x p) media_contentType,
       CommandAuthorized = commandAuthorized x p,
       OriginatingTo = slackTo x p \<rparr>"

definition replyTarget :: "Externals \<Rightarrow> Params \<Rightarrow> string" where
  "replyTarget x p = To (ctxPayload x p)"

definition prepared :: "Externals \<Rightarrow> Params \<Rightarrow> PreparedSlackMessage" where
  "prepared x p =
     \<lparr> prepared_replyTarget = replyTarget x p,
       prepared_ctxPayload = ctxPayload x p,
       prepared_isDirectMessage = isDirectMessage x p,
       prepared_isRoomish = isRoomish x p,
       prepared_historyKey = historyKey x p,
       prepared_ackReactionMessageTs = ackReactionMessageTs p,
       prepared_ackReactionValue = ackReactionValue x p,
       prepared_ackReactionPromise = ackReactionPromise x p \<rparr>"

subsection \<open>The gates and the function\<close>

text \<open>
  The returns before the allow list is resolved: the bot filter, the two sender checks and
  the channel check.
\<close>

definition earlyGates :: "Externals \<Rightarrow> Params \<Rightarrow> drop_site option" where
  "earlyGates x p =
     (if isBotMessage p \<and> isSelfMessage p then Some SelfBotMessage
      else if isBotMessage p \<and> \<not> allowBots x p then Some BotsNotAllowed
      else if isDirectMessage x p \<and> \<not> truthy (user (message p)) then Some DmMissingUser
      else if \<not> truthy (senderId p) then Some MissingSender
      else if \<not> isChannelAllowed (ctx p) (channel (message p)) (channelName p)
                  (resolvedChannelType x p)
           then Some ChannelNotAllowed
      else None)"

text \<open>
  The block guarded by \<^verbatim>\<open>isDirectMessage\<close>: the policy check, with the pairing subflow. It
  gives the return taken (if any), the calls sent out and the pairing store afterwards.
\<close>

definition dmAccessPolicy ::
    "Externals \<Rightarrow> pairing_store \<Rightarrow> Params \<Rightarrow> drop_site option \<times> effect list \<times> pairing_store" where
  "dmAccessPolicy x st p =
     (if isDirectMessage x p then
        (case user (message p) of
           None \<Rightarrow> (Some DmMissingUserId, [], st)
         | Some directUserId \<Rightarrow>
             if directUserId = [] then (Some DmMissingUserId, [], st)
             else if \<not> dmEnabled (ctx p) \<or> dmPolicy (ctx p) = ''disabled''
                  then (Some DmsDisabled, [], st)
             else if dmPolicy (ctx p) \<noteq> ''open'' then
               (if \<not> allowListMatches x (allowFromLower x) directUserId then
                  (if dmPolicy (ctx p) = ''pairing'' then
                     (case upsertChannelPairingRequest (generatePairingCode x) st
                             ''slack'' directUserId of
                        ((code, created), st') \<Rightarrow>
                          (Some DmUnauthorized,
                           (if created
                            then [SendMessageSlack (channel (message p))
                                    (buildPairingReply x
                                       (''Your Slack user id: '' @ directUserId) code)]
                            else []),
                           st'))
                   else (Some DmUnauthorized, [], st))
                else (None, [], st))
             else (None, [], st))
      else (None, [], st))"

text \<open>The two returns for room channels: the channel's user allow list and the mention gate.\<close>

definition roomGates :: "Externals \<Rightarrow> Params \<Rightarrow> drop_site option" where
  "roomGates x p =
     (if isRoom x p \<and> \<not> channelUserAuthorized x p then Some ChannelUserUnauthorized
      else if isRoom x p \<and> truthyB (shouldRequireMention x p) \<and> shouldSkip (mentionGate x p)
           then Some NoMention
      else None)"

definition ackEffects :: "Externals \<Rightarrow> Params \<Rightarrow> effect list" where
  "ackEffects x p =
     (if ackReactionPromise x p
      then [ReactSlackMessage (channel (message p)) (orDefault (ackReactionMessageTs p) [])
              (ackReactionValue x p)]
      else [])"

text \<open>Body resolution, the reaction, envelope assembly and the last return.\<close>

definition bodyAndEnvelope :: "Externals \<Rightarrow> Params \<Rightarrow> outcome \<times> effect list" where
  "bodyAndEnvelope x p =
     (if rawBody x p = [] then (Dropped EmptyBody, [])
      else if replyTarget x p = [] then (Dropped EmptyReplyTarget, ackEffects x p)
      else (Prepared (prepared x p), ackEffects x p))"

definition prepareSlackMessage :: "Externals \<Rightarrow> pairing_store \<Rightarrow> Params \<Rightarrow> Completed" where
  "prepareSlackMessage x st p =
     (case earlyGates x p of
        Some d \<Rightarrow> \<lparr> returned = Dropped d, effects = [], store = st \<rparr>
      | None \<Rightarrow>
          (case dmAccessPolicy x st p of
             (Some d, effs, st') \<Rightarrow> \<lparr> returned = Dropped d, effects = effs, store = st' \<rparr>
           | (None, effs, st') \<Rightarrow>
               (case roomGates x p of
                  Some d \<Rightarrow> \<lparr> returned = Dropped d, effects = effs, store = st' \<rparr>
                | None \<Rightarrow>
                    \<lparr> returned = fst (bodyAndEnvelope x p),
                      effects = effs @ snd (bodyAndEnvelope x p),
                      store = st' \<rparr>)))"

text \<open>
  A message passes the gates that precede body resolution when none of the returns above
  fires.
\<close>

definition passesGates :: "Externals \<Rightarrow> pairing_store \<Rightarrow> Params \<Rightarrow> bool" where
  "passesGates x st p =
     (earlyGates x p = None \<and> fst (dmAccessPolicy x st p) = None \<and> roomGates x p = None)"

subsection \<open>Example configurations\<close>

text \<open>
  A workspace in which the bot is the user \<^verbatim>\<open>UBOT\<close>, every channel is allowed, rooms
  require a mention by default and have no user allow list, the only allow-listed sender
  is \<^verbatim>\<open>UOWNER\<close> (allow lists are matched on the lower-cased id), and \<^verbatim>\<open>/status\<close> is the
  only control command.
\<close>

definition lowerAscii :: "string \<Rightarrow> string" where
  "lowerAscii s =
     map (\<lambda>c. let n = (of_char c :: nat) in if 65 \<le> n \<and> n \<le> 90 then char_of (n + 32) else c) s"

definition exampleExternals :: Externals where
  "exampleExternals =
     \<lparr> normalizeSlackChannelType = (\<lambda>t c. case t of None \<Rightarrow> Some ''channel'' | Some v \<Rightarrow> Some v),
       resolveSlackChannelConfig =
         (\<lambda>c n d. Some \<lparr> cc_allowBots = None, cc_requireMention = None, cc_users = None \<rparr>),
       cfg_allowBots = None,
       resolveSlackEffectiveAllowFrom = [''uowner''],
       allowListMatches = (\<lambda>l i. lowerAscii i \<in> set l),
       buildPairingReply = (\<lambda>idLine code. idLine @ '' / pairing code: '' @ code),
       generatePairingCode = (\<lambda>st. ''K7Q2M9XA''),
       resolveAgentRoute =
         (\<lambda>a t k i. \<lparr> route_agentId = ''main'', route_accountId = a,
                      route_sessionKey = ''agent:main:slack:'' @ k @ '':'' @ i \<rparr>),
       buildMentionRegexes = (\<lambda>a. []),
       matchesMentionPatterns = (\<lambda>t rs. False),
       resolveSlackUserAllowed = (\<lambda>l i n. True),
       isSlackSenderAllowListed = (\<lambda>l i n. lowerAscii i \<in> set l),
       shouldHandleTextCommands = True,
       hasControlCommand = (\<lambda>t. t = ''/status''),
       resolveSlackMedia = (\<lambda>f. None),
       resolveAckReaction = (\<lambda>a. Some ''eyes''),
       threadScopedKey = (\<lambda>b t. b @ '':thread:'' @ t) \<rparr>"

definition exampleContext :: SlackMonitorContext where
  "exampleContext =
     \<lparr> resolveChannelName =
         (\<lambda>c. \<lparr> info_name = Some ''general'', info_type = Some ''channel'',
                info_topic = None, info_purpose = None \<rparr>),
       isChannelAllowed = (\<lambda>c n t. True),
       resolveUserName = (\<lambda>u. None),
       botUserId = Some ''UBOT'',
       teamId = Some ''T1'',
       defaultRequireMention = Some True,
       dmEnabled = True,
       dmPolicy = ''pairing'',
       ackReactionScope = ''group-mentions'',
       threadInheritParent = True,
       threadHistoryScope = ''thread'' \<rparr>"

definition exampleAccount :: ResolvedSlackAccount where
  "exampleAccount = \<lparr> accountId = ''default'', config_allowBots = None \<rparr>"

definition exampleOpts :: SlackOpts where
  "exampleOpts = \<lparr> opt_source = ''message'', opt_wasMentioned = None \<rparr>"

text \<open>A message in the room \<^verbatim>\<open>C1\<close> and a direct message in \<^verbatim>\<open>D1\<close>, both from \<^verbatim>\<open>U1\<close>.\<close>

definition roomMessage :: SlackMessageEvent where
  "roomMessage =
     \<lparr> channel = ''C1'', channel_type = Some ''channel'', user = Some ''U1'', bot_id = None,
       msg_text = Some ''hello <@UBOT>'', ts = Some ''1700000000.000100'', thread_ts = None,
       parent_user_id = None, username = None, files = None \<rparr>"

definition directMessage :: SlackMessageEvent where
  "directMessage =
     \<lparr> channel = ''D1'', channel_type = Some ''im'', user = Some ''U1'', bot_id = None,
       msg_text = Some ''hi'', ts = Some ''1700000000.000200'', thread_ts = None,
       parent_user_id = None, username = None, files = None \<rparr>"

definition exampleParams :: "SlackMessageEvent \<Rightarrow> Params" where
  "exampleParams m =
     \<lparr> ctx = exampleContext, account = exampleAccount, message = m, opts = exampleOpts \<rparr>"

definition mediaExample :: SlackMedia where
  "mediaExample =
     \<lparr> media_path = Some ''/tmp/inbound/F1.png'', media_contentType = Some ''image/png'',
       media_placeholder = Some ''<media:image>'' \<rparr>"

section \<open>Basic facts\<close>

subsection \<open>The JavaScript helpers\<close>

lemma truthy_simps [simp]: "truthy None = False" "truthy (Some v) = (v \<noteq> [])"
  by (simp_all add: truthy_def)

lemma truthyB_simps [simp]: "truthyB None = False" "truthyB (Some b) = b"
  by (simp_all add: truthyB_def)

lemma nullish_simps [simp]: "nullish None b = b" "nullish (Some v) b = Some v"
  by (simp_all add: nullish_def)

lemma orDefault_simps [simp]: "orDefault None d = d" "orDefault (Some v) d = v"
  by (simp_all add: orDefault_def)

lemma interp_simps [simp]: "interp None = ''undefined''" "interp (Some v) = v"
  by (simp_all add: interp_def)

text \<open>The regular expression test finds exactly the texts that hold a mention token.\<close>

lemma mentionTokenTest_intro:
  "tok \<noteq> [] \<Longrightarrow> CHR ''>'' \<notin> set tok \<Longrightarrow>
   mentionTokenTest (pre @ ''<@'' @ tok @ ''>'' @ post)"
proof (induction pre)
  case Nil
  then show ?case by (cases tok) auto
next
  case (Cons a pre)
  then show ?case by simp
qed

lemma mentionTokenTest_elim:
  "mentionTokenTest t \<Longrightarrow>
   \<exists>pre tok post. t = pre @ ''<@'' @ tok @ ''>'' @ post \<and> tok \<noteq> [] \<and> CHR ''>'' \<notin> set tok"
proof (induction t)
  case Nil
  then show ?case by simp
next
  case (Cons c cs)
  show ?case
  proof (cases "mentionTokenTest cs")
    case True
    from Cons.IH [OF True] obtain pre tok post
      where "cs = pre @ ''<@'' @ tok @ ''>'' @ post" "tok \<noteq> []" "CHR ''>'' \<notin> set tok"
      by blast
    then have "c # cs = (c # pre) @ ''<@'' @ tok @ ''>'' @ post \<and> tok \<noteq> [] \<and> CHR ''>'' \<notin> set tok"
      by simp
    then show ?thesis by blast
  next
    case False
    with Cons.prems obtain r where c: "c = CHR ''<''" and cs: "cs = CHR ''@'' # r"
      and r: "r \<noteq> []" "hd r \<noteq> CHR ''>''" "CHR ''>'' \<in> set r"
      by (auto split: list.splits)
    from split_list_first [OF r(3)] obtain tok post
      where sp: "r = tok @ CHR ''>'' # post" "CHR ''>'' \<notin> set tok" by blast
    have "tok \<noteq> []" using r(2) sp(1) by (cases tok) auto
    with c cs sp have "c # cs = [] @ ''<@'' @ tok @ ''>'' @ post \<and> tok \<noteq> [] \<and> CHR ''>'' \<notin> set tok"
      by simp
    then show ?thesis by blast
  qed
qed

lemma mentionTokenTest_iff:
  "mentionTokenTest t =
     (\<exists>pre tok post. t = pre @ ''<@'' @ tok @ ''>'' @ post \<and> tok \<noteq> [] \<and> CHR ''>'' \<notin> set tok)"
  using mentionTokenTest_intro mentionTokenTest_elim by blast

subsection \<open>What the function returns at each stage\<close>

lemma prepare_early:
  "earlyGates x p = Some d \<Longrightarrow>
   prepareSlackMessage x st p = \<lparr> returned = Dropped d, effects = [], store = st \<rparr>"
  by (simp add: prepareSlackMessage_def)

lemma returned_early_null:
  "earlyGates x p \<noteq> None \<Longrightarrow> returnsNull (returned (prepareSlackMessage x st p))"
  by (auto simp: prepare_early)

lemma returned_after_early:
  "earlyGates x p = None \<Longrightarrow>
   returned (prepareSlackMessage x st p) =
     (case fst (dmAccessPolicy x st p) of
        Some d \<Rightarrow> Dropped d
      | None \<Rightarrow> (case roomGates x p of Some d \<Rightarrow> Dropped d | None \<Rightarrow> fst (bodyAndEnvelope x p)))"
  by (simp add: prepareSlackMessage_def split: prod.splits option.splits)

lemma dmAccessPolicy_pass:
  "fst (dmAccessPolicy x st p) = None \<Longrightarrow> dmAccessPolicy x st p = (None, [], st)"
  by (auto simp: dmAccessPolicy_def split: if_splits option.splits prod.splits)

lemma prepare_pass:
  "passesGates x st p \<Longrightarrow>
   prepareSlackMessage x st p =
     \<lparr> returned = fst (bodyAndEnvelope x p), effects = snd (bodyAndEnvelope x p), store = st \<rparr>"
  using dmAccessPolicy_pass [of x st p]
  by (simp add: prepareSlackMessage_def passesGates_def)

lemma earlyGates_dm_user:
  "earlyGates x p = None \<Longrightarrow> isDirectMessage x p \<Longrightarrow> \<exists>u. user (message p) = Some u \<and> u \<noteq> []"
  by (cases "user (message p)") (auto simp: earlyGates_def split: if_splits)

lemma slackTo_nonempty: "slackTo x p \<noteq> []"
  by (simp add: slackTo_def)

lemma replyTarget_nonempty: "replyTarget x p \<noteq> []"
  by (simp add: replyTarget_def ctxPayload_def slackTo_nonempty)

lemma bodyAndEnvelope_cases:
  "bodyAndEnvelope x p =
     (if rawBody x p = [] then (Dropped EmptyBody, [])
      else (Prepared (prepared x p), ackEffects x p))"
  by (simp add: bodyAndEnvelope_def replyTarget_nonempty)

lemma returned_Prepared:
  "returned (prepareSlackMessage x st p) = Prepared out \<Longrightarrow> out = prepared x p"
  by (cases "earlyGates x p")
     (auto simp: prepare_early returned_after_early bodyAndEnvelope_cases
           split: option.splits if_splits)

section \<open>Properties of the mention gate\<close>

text \<open>
  C1. For every input, \<open>resolveMentionGating\<close> returns \<open>effectiveWasMentioned\<close> equal to the
  logical OR of \<open>wasMentioned\<close>, \<open>implicitMention\<close> and \<open>shouldBypassMention\<close>, where an
  absent optional flag counts as false, and \<open>shouldSkip\<close> holds iff \<open>requireMention\<close> and
  \<open>canDetectMention\<close> and not \<open>effectiveWasMentioned\<close>.
\<close>

theorem resolveMentionGating_truth_table:
  "effectiveWasMentioned (resolveMentionGating params) =
     (wasMentioned params \<or> truthyB (implicitMention params) \<or> truthyB (shouldBypassMention params))
   \<and> shouldSkip (resolveMentionGating params) =
     (requireMention params \<and> canDetectMention params
        \<and> \<not> effectiveWasMentioned (resolveMentionGating params))"
proof -
  have flag: "(f = Some True) = truthyB f" for f
    by (cases f) (simp_all add: truthyB_def)
  show ?thesis
    by (simp add: resolveMentionGating_def Let_def flag)
qed

text \<open>
  C3. For every input with \<open>canDetectMention = false\<close>, \<open>resolveMentionGating\<close> returns
  \<open>shouldSkip = false\<close>, whatever \<open>requireMention\<close>, \<open>wasMentioned\<close>, \<open>implicitMention\<close> and
  \<open>shouldBypassMention\<close> are.
\<close>

theorem resolveMentionGating_fail_open:
  "\<not> canDetectMention params \<Longrightarrow> \<not> shouldSkip (resolveMentionGating params)"
  by (simp add: resolveMentionGating_def Let_def)

theorem resolveMentionGating_fail_open_witness:
  "\<not> canDetectMention \<lparr> requireMention = True, canDetectMention = False, wasMentioned = False,
        implicitMention = None, shouldBypassMention = Some False \<rparr>
   \<and> \<not> shouldSkip (resolveMentionGating
        \<lparr> requireMention = True, canDetectMention = False, wasMentioned = False,
          implicitMention = None, shouldBypassMention = Some False \<rparr>)"
  using resolveMentionGating_fail_open
    [of "\<lparr> requireMention = True, canDetectMention = False, wasMentioned = False,
          implicitMention = None, shouldBypassMention = Some False \<rparr>"]
  by simp

section \<open>Properties of the admission pipeline\<close>

subsection \<open>The self-message filter\<close>

text \<open>
  C2, as the function implements it. Every message that carries a bot indicator (a
  non-empty \<open>bot_id\<close>) and whose non-empty sender id equals the context's bot user id makes
  \<open>prepareSlackMessage\<close> return \<^verbatim>\<open>null\<close>, at the first return statement and without any
  outbound call, whatever the \<open>allowBots\<close> setting and the rest of the configuration are.
\<close>

theorem self_bot_message_dropped:
  assumes "truthy (bot_id (message p))" and "truthy (user (message p))"
    and "user (message p) = botUserId (ctx p)"
  shows "prepareSlackMessage x st p =
           \<lparr> returned = Dropped SelfBotMessage, effects = [], store = st \<rparr>"
proof -
  have "earlyGates x p = Some SelfBotMessage"
    using assms by (simp add: earlyGates_def isBotMessage_def isSelfMessage_def)
  then show ?thesis by (rule prepare_early)
qed

text \<open>
  A bot-authored message of the bot itself, in a configuration that allows bot messages.
\<close>

theorem self_bot_message_dropped_witness:
  "truthy (bot_id (message (exampleParams (roomMessage\<lparr> user := Some ''UBOT'', bot_id := Some ''B1'' \<rparr>))))
   \<and> allowBots (exampleExternals\<lparr> cfg_allowBots := Some True \<rparr>)
        (exampleParams (roomMessage\<lparr> user := Some ''UBOT'', bot_id := Some ''B1'' \<rparr>))
   \<and> prepareSlackMessage (exampleExternals\<lparr> cfg_allowBots := Some True \<rparr>) Map.empty
        (exampleParams (roomMessage\<lparr> user := Some ''UBOT'', bot_id := Some ''B1'' \<rparr>))
      = \<lparr> returned = Dropped SelfBotMessage, effects = [], store = Map.empty \<rparr>"
proof -
  let ?p = "exampleParams (roomMessage\<lparr> user := Some ''UBOT'', bot_id := Some ''B1'' \<rparr>)"
  have b: "truthy (bot_id (message ?p))" by code_simp
  have u: "truthy (user (message ?p))" by code_simp
  have e: "user (message ?p) = botUserId (ctx ?p)" by code_simp
  have a: "allowBots (exampleExternals\<lparr> cfg_allowBots := Some True \<rparr>) ?p" by code_simp
  from self_bot_message_dropped [OF b u e] a b show ?thesis by blast
qed

text \<open>
  The filter sits inside the branch for bot-authored messages. A message in the room
  \<^verbatim>\<open>C1\<close> whose sender id is the bot's own user id, but which has no \<open>bot_id\<close>, passes every
  gate and is returned as an envelope.
\<close>

theorem self_message_without_bot_indicator_forwarded:
  "user (message (exampleParams (roomMessage\<lparr> user := Some ''UBOT'' \<rparr>)))
     = botUserId (ctx (exampleParams (roomMessage\<lparr> user := Some ''UBOT'' \<rparr>)))
   \<and> truthy (user (message (exampleParams (roomMessage\<lparr> user := Some ''UBOT'' \<rparr>))))
   \<and> \<not> returnsNull (returned (prepareSlackMessage exampleExternals Map.empty
           (exampleParams (roomMessage\<lparr> user := Some ''UBOT'' \<rparr>))))"
  by code_simp

subsection \<open>Pairing\<close>

text \<open>
  What the function does with a direct message under the pairing policy whose sender is
  not on the allow list: one of the earlier returns, or the return for disabled direct
  messages, or the pairing subflow, which sends the reply exactly when the upsert created
  the request.
\<close>

lemma pairing_run:
  assumes dm: "isDirectMessage x p"
    and pol: "dmPolicy (ctx p) = ''pairing''"
    and sender: "user (message p) = Some u"
    and unauth: "\<not> allowListMatches x (allowFromLower x) u"
  shows "prepareSlackMessage x st p =
     (case earlyGates x p of
        Some d \<Rightarrow> \<lparr> returned = Dropped d, effects = [], store = st \<rparr>
      | None \<Rightarrow>
          if \<not> dmEnabled (ctx p) then \<lparr> returned = Dropped DmsDisabled, effects = [], store = st \<rparr>
          else if snd (fst (upsertChannelPairingRequest (generatePairingCode x) st ''slack'' u))
          then \<lparr> returned = Dropped DmUnauthorized,
                 effects = [SendMessageSlack (channel (message p))
                    (buildPairingReply x (''Your Slack user id: '' @ u) (generatePairingCode x st))],
                 store = st((''slack'', u) \<mapsto> generatePairingCode x st) \<rparr>
          else \<lparr> returned = Dropped DmUnauthorized, effects = [], store = st \<rparr>)"
proof (cases "earlyGates x p")
  case (Some d)
  then show ?thesis by (simp add: prepare_early)
next
  case None
  from earlyGates_dm_user [OF None dm] sender have ne: "u \<noteq> []" by simp
  show ?thesis
    using None dm pol sender unauth ne
    by (simp add: prepareSlackMessage_def dmAccessPolicy_def upsertChannelPairingRequest_def
             split: option.splits)
qed

lemma upsert_created:
  "snd (fst (upsertChannelPairingRequest gen st chan ident)) = (st (chan, ident) = None)"
  by (simp add: upsertChannelPairingRequest_def split: option.splits)

text \<open>
  C4, as the function implements it. Take two consecutive direct messages from the same
  sender \<open>u\<close>, handled under the same context with policy \<^verbatim>\<open>pairing\<close>, the sender not
  matching the allow list; the second call starts from the pairing store the first one
  left. Then \<open>prepareSlackMessage\<close> returns \<^verbatim>\<open>null\<close> for both; each call sends the pairing
  reply exactly when it reaches the pairing subflow and the upsert reports the request as
  newly created; so at most one reply is sent in all. When both messages reach the subflow
  (the bot, sender and channel checks pass and direct messages are enabled) and no request
  of \<open>u\<close> is pending beforehand, exactly one reply is sent: by the first call, whose upsert
  creates the request, while the upsert of the second call finds it and the call sends
  nothing.
\<close>

theorem pairing_reply_once:
  assumes dm: "isDirectMessage x p1" "isDirectMessage x p2"
    and same: "ctx p2 = ctx p1"
    and pol: "dmPolicy (ctx p1) = ''pairing''"
    and sender: "user (message p1) = Some u" "user (message p2) = Some u"
    and unauth: "\<not> allowListMatches x (allowFromLower x) u"
  shows "let r1 = prepareSlackMessage x st p1;
             r2 = prepareSlackMessage x (store r1) p2;
             created1 = snd (fst (upsertChannelPairingRequest (generatePairingCode x) st
                                    ''slack'' u));
             created2 = snd (fst (upsertChannelPairingRequest (generatePairingCode x) (store r1)
                                    ''slack'' u))
         in returnsNull (returned r1) \<and> returnsNull (returned r2)
          \<and> effects r1 =
              (if earlyGates x p1 = None \<and> dmEnabled (ctx p1) \<and> created1
               then [SendMessageSlack (channel (message p1))
                       (buildPairingReply x (''Your Slack user id: '' @ u)
                          (generatePairingCode x st))]
               else [])
          \<and> effects r2 =
              (if earlyGates x p2 = None \<and> dmEnabled (ctx p2) \<and> created2
               then [SendMessageSlack (channel (message p2))
                       (buildPairingReply x (''Your Slack user id: '' @ u)
                          (generatePairingCode x (store r1)))]
               else [])
          \<and> length (filter isPairingReply (effects r1 @ effects r2)) \<le> 1
          \<and> (earlyGates x p1 = None \<and> earlyGates x p2 = None \<and> dmEnabled (ctx p1)
               \<and> st (''slack'', u) = None
             \<longrightarrow> created1 \<and> \<not> created2
                 \<and> length (filter isPairingReply (effects r1 @ effects r2)) = 1
                 \<and> effects r2 = []
                 \<and> store r1 (''slack'', u) = Some (generatePairingCode x st)
                 \<and> store r2 = store r1)"
proof -
  note run1 = pairing_run [OF dm(1) pol sender(1) unauth, of st]
  have pol2: "dmPolicy (ctx p2) = ''pairing''" using same pol by simp
  note run2 = pairing_run [OF dm(2) pol2 sender(2) unauth]
  show ?thesis
    unfolding Let_def
    by (cases "earlyGates x p1"; cases "earlyGates x p2"; cases "st (''slack'', u)")
       (simp_all add: run1 run2 upsert_created same)
qed

text \<open>
  Two direct messages from \<^verbatim>\<open>U1\<close>, who is not on the allow list, with an empty pairing
  store at the start.
\<close>

theorem pairing_reply_once_witness:
  "returned (prepareSlackMessage exampleExternals Map.empty (exampleParams directMessage))
     = Dropped DmUnauthorized
   \<and> effects (prepareSlackMessage exampleExternals Map.empty (exampleParams directMessage))
     = [SendMessageSlack ''D1'' ''Your Slack user id: U1 / pairing code: K7Q2M9XA'']
   \<and> returned (prepareSlackMessage exampleExternals
        (store (prepareSlackMessage exampleExternals Map.empty (exampleParams directMessage)))
        (exampleParams (directMessage\<lparr> msg_text := Some ''anyone there?'' \<rparr>)))
     = Dropped DmUnauthorized
   \<and> effects (prepareSlackMessage exampleExternals
        (store (prepareSlackMessage exampleExternals Map.empty (exampleParams directMessage)))
        (exampleParams (directMessage\<lparr> msg_text := Some ''anyone there?'' \<rparr>)))
     = []"
proof -
  let ?p1 = "exampleParams directMessage"
  let ?p2 = "exampleParams (directMessage\<lparr> msg_text := Some ''anyone there?'' \<rparr>)"
  have dm: "isDirectMessage exampleExternals ?p1" "isDirectMessage exampleExternals ?p2"
    by code_simp+
  have same: "ctx ?p2 = ctx ?p1" by (simp add: exampleParams_def)
  have pol: "dmPolicy (ctx ?p1) = ''pairing''" by code_simp
  have sender: "user (message ?p1) = Some ''U1''" "user (message ?p2) = Some ''U1''"
    by code_simp+
  have unauth: "\<not> allowListMatches exampleExternals (allowFromLower exampleExternals) ''U1''"
    by code_simp
  have eg: "earlyGates exampleExternals ?p1 = None" "earlyGates exampleExternals ?p2 = None"
    by code_simp+
  have en: "dmEnabled (ctx ?p1)" by code_simp
  have fresh: "(Map.empty :: pairing_store) (''slack'', ''U1'') = None" by simp
  have r1: "returned (prepareSlackMessage exampleExternals Map.empty ?p1) = Dropped DmUnauthorized"
    by code_simp
  have e1: "effects (prepareSlackMessage exampleExternals Map.empty ?p1)
     = [SendMessageSlack ''D1'' ''Your Slack user id: U1 / pairing code: K7Q2M9XA'']"
    by code_simp
  have r2: "returned (prepareSlackMessage exampleExternals
        (store (prepareSlackMessage exampleExternals Map.empty ?p1)) ?p2) = Dropped DmUnauthorized"
    by code_simp
  from pairing_reply_once [OF dm same pol sender unauth, of Map.empty] eg en fresh r1 e1 r2
  show ?thesis by (simp add: Let_def)
qed

text \<open>
  Without those conditions no reply need be sent. Two direct messages from \<^verbatim>\<open>U1\<close> under
  the policy \<^verbatim>\<open>pairing\<close>, the sender not on the allow list and not paired: when
  \<open>dmEnabled\<close> is false the function returns before the upsert, for both messages, and
  nothing is sent. The same holds when the channel is not allowed, and when a request of
  \<^verbatim>\<open>U1\<close> is already pending before the first message.
\<close>

theorem pairing_without_reply:
  "isDirectMessage exampleExternals
      ((exampleParams directMessage)\<lparr> ctx := exampleContext\<lparr> dmEnabled := False \<rparr> \<rparr>)
   \<and> isDirectMessage exampleExternals
      ((exampleParams (directMessage\<lparr> msg_text := Some ''anyone there?'' \<rparr>))
         \<lparr> ctx := exampleContext\<lparr> dmEnabled := False \<rparr> \<rparr>)
   \<and> dmPolicy (exampleContext\<lparr> dmEnabled := False \<rparr>) = ''pairing''
   \<and> user (message (exampleParams directMessage)) = Some ''U1''
   \<and> user (message (exampleParams (directMessage\<lparr> msg_text := Some ''anyone there?'' \<rparr>)))
       = Some ''U1''
   \<and> \<not> allowListMatches exampleExternals (allowFromLower exampleExternals) ''U1''
   \<and> returnsNull (returned (prepareSlackMessage exampleExternals Map.empty
        ((exampleParams directMessage)\<lparr> ctx := exampleContext\<lparr> dmEnabled := False \<rparr> \<rparr>)))
   \<and> effects (prepareSlackMessage exampleExternals Map.empty
        ((exampleParams directMessage)\<lparr> ctx := exampleContext\<lparr> dmEnabled := False \<rparr> \<rparr>))
       @ effects (prepareSlackMessage exampleExternals
           (store (prepareSlackMessage exampleExternals Map.empty
              ((exampleParams directMessage)\<lparr> ctx := exampleContext\<lparr> dmEnabled := False \<rparr> \<rparr>)))
           ((exampleParams (directMessage\<lparr> msg_text := Some ''anyone there?'' \<rparr>))
              \<lparr> ctx := exampleContext\<lparr> dmEnabled := False \<rparr> \<rparr>))
     = []
   \<and> isDirectMessage exampleExternals
      ((exampleParams directMessage)
         \<lparr> ctx := exampleContext\<lparr> isChannelAllowed := (\<lambda>c n t. False) \<rparr> \<rparr>)
   \<and> dmPolicy (exampleContext\<lparr> isChannelAllowed := (\<lambda>c n t. False) \<rparr>) = ''pairing''
   \<and> effects (prepareSlackMessage exampleExternals Map.empty
        ((exampleParams directMessage)
           \<lparr> ctx := exampleContext\<lparr> isChannelAllowed := (\<lambda>c n t. False) \<rparr> \<rparr>))
       @ effects (prepareSlackMessage exampleExternals
           (store (prepareSlackMessage exampleExternals Map.empty
              ((exampleParams directMessage)
                 \<lparr> ctx := exampleContext\<lparr> isChannelAllowed := (\<lambda>c n t. False) \<rparr> \<rparr>)))
           ((exampleParams (directMessage\<lparr> msg_text := Some ''anyone there?'' \<rparr>))
              \<lparr> ctx := exampleContext\<lparr> isChannelAllowed := (\<lambda>c n t. False) \<rparr> \<rparr>))
     = []
   \<and> isDirectMessage exampleExternals (exampleParams directMessage)
   \<and> dmPolicy exampleContext = ''pairing''
   \<and> effects (prepareSlackMessage exampleExternals
          (Map.empty((''slack'', ''U1'') \<mapsto> ''K7Q2M9XA'')) (exampleParams directMessage))
       @ effects (prepareSlackMessage exampleExternals
           (store (prepareSlackMessage exampleExternals
              (Map.empty((''slack'', ''U1'') \<mapsto> ''K7Q2M9XA'')) (exampleParams directMessage)))
           (exampleParams (directMessage\<lparr> msg_text := Some ''anyone there?'' \<rparr>)))
     = []"
  by code_simp

subsection \<open>The command bypass of the mention gate\<close>

text \<open>
  C5. \<open>shouldBypassMention\<close> is true exactly when all of these hold: text-command handling
  is enabled for the surface, the channel is room-kind, mention is required for the
  channel, no mention of the bot was found (\<open>wasMentioned\<close> is false) and the text holds no
  mention token \<^verbatim>\<open><@...>\<close> of any user, the sender is command-authorized, and the text
  contains a recognized control command. Whenever it is true, the mention is counted as
  satisfied and neither room gate returns; and when the caller passed no \<open>wasMentioned\<close>
  of its own, the text holds no mention of the bot.
\<close>

theorem shouldBypassMention_conditions:
  "shouldBypassMention' x p
     = (shouldHandleTextCommands x
        \<and> isRoom x p
        \<and> truthyB (shouldRequireMention x p)
        \<and> \<not> wasMentioned' x p
        \<and> \<not> (\<exists>pre tok post.
               orDefault (msg_text (message p)) [] = pre @ ''<@'' @ tok @ ''>'' @ post
               \<and> tok \<noteq> [] \<and> CHR ''>'' \<notin> set tok)
        \<and> commandAuthorized x p
        \<and> hasControlCommand x (orDefault (msg_text (message p)) []))
   \<and> (shouldBypassMention' x p \<longrightarrow> effectiveWasMentioned' x p \<and> roomGates x p = None)
   \<and> (shouldBypassMention' x p \<and> opt_wasMentioned (opts p) = None \<longrightarrow> \<not> textHasBotMention p)"
proof -
  have a: "shouldBypassMention' x p
     = (shouldHandleTextCommands x \<and> isRoom x p \<and> truthyB (shouldRequireMention x p)
        \<and> \<not> wasMentioned' x p
        \<and> \<not> (\<exists>pre tok post.
               orDefault (msg_text (message p)) [] = pre @ ''<@'' @ tok @ ''>'' @ post
               \<and> tok \<noteq> [] \<and> CHR ''>'' \<notin> set tok)
        \<and> commandAuthorized x p
        \<and> hasControlCommand x (orDefault (msg_text (message p)) []))"
    unfolding shouldBypassMention'_def allowTextCommands_def hasAnyMention_def
      mentionTokenTest_iff ..
  have b: "effectiveWasMentioned' x p \<and> roomGates x p = None" if "shouldBypassMention' x p"
  proof -
    from that have auth: "channelUserAuthorized x p"
      by (simp add: shouldBypassMention'_def commandAuthorized_def)
    from that have eff: "effectiveWasMentioned' x p"
      by (simp add: effectiveWasMentioned'_def mentionGate_def resolveMentionGating_def Let_def)
    then have "\<not> shouldSkip (mentionGate x p)"
      by (simp add: effectiveWasMentioned'_def mentionGate_def resolveMentionGating_def Let_def)
    with auth eff show ?thesis by (simp add: roomGates_def)
  qed
  have c: "\<not> textHasBotMention p"
    if "shouldBypassMention' x p" "opt_wasMentioned (opts p) = None"
  proof -
    from that(1) have "isRoom x p" "\<not> wasMentioned' x p"
      by (simp_all add: shouldBypassMention'_def)
    then show ?thesis
      using that(2) by (auto simp: wasMentioned'_def isRoom_def isDirectMessage_def)
  qed
  from a b c show ?thesis by blast
qed

text \<open>
  The allow-listed sender \<^verbatim>\<open>UOWNER\<close> writes \<^verbatim>\<open>/status\<close> without a mention in a room that
  requires one: the bypass applies. The same text from \<^verbatim>\<open>U1\<close>, who is not
  command-authorized, gets no bypass.
\<close>

theorem shouldBypassMention_conditions_witness:
  "shouldBypassMention' exampleExternals
     (exampleParams (roomMessage\<lparr> user := Some ''UOWNER'', msg_text := Some ''/status'' \<rparr>))
   \<and> \<not> wasMentioned' exampleExternals
     (exampleParams (roomMessage\<lparr> user := Some ''UOWNER'', msg_text := Some ''/status'' \<rparr>))
   \<and> roomGates exampleExternals
     (exampleParams (roomMessage\<lparr> user := Some ''UOWNER'', msg_text := Some ''/status'' \<rparr>)) = None
   \<and> WasMentioned (prepared_ctxPayload (prepared exampleExternals
     (exampleParams (roomMessage\<lparr> user := Some ''UOWNER'', msg_text := Some ''/status'' \<rparr>))))
      = Some True
   \<and> \<not> shouldBypassMention' exampleExternals
     (exampleParams (roomMessage\<lparr> msg_text := Some ''/status'' \<rparr>))
   \<and> \<not> commandAuthorized exampleExternals
     (exampleParams (roomMessage\<lparr> msg_text := Some ''/status'' \<rparr>))"
proof -
  let ?p = "exampleParams (roomMessage\<lparr> user := Some ''UOWNER'', msg_text := Some ''/status'' \<rparr>)"
  let ?q = "exampleParams (roomMessage\<lparr> msg_text := Some ''/status'' \<rparr>)"
  have by_p: "shouldBypassMention' exampleExternals ?p" by code_simp
  have rm: "isRoomish exampleExternals ?p" by code_simp
  have na: "\<not> commandAuthorized exampleExternals ?q" by code_simp
  from shouldBypassMention_conditions [of exampleExternals ?p]
       shouldBypassMention_conditions [of exampleExternals ?q] by_p rm na
  show ?thesis by (simp add: prepared_def ctxPayload_def)
qed

subsection \<open>Thread replies and session keys\<close>

text \<open>
  C6. \<open>isThreadReply\<close> holds iff the message has a non-empty thread id and the thread id
  differs from the message's own id or a (non-empty) parent-sender id is present. For a
  thread reply the session key is the thread-scoped key of the base session key and the
  thread id, and the parent session key equals the base session key exactly when the
  context is set to inherit the parent (it is absent otherwise). For any other message the
  session key is the base session key and the parent session key is absent. These are the
  keys the returned envelope carries.
\<close>

theorem thread_reply_session_keys:
  "isThreadReply p
     = (truthy (thread_ts (message p))
        \<and> (thread_ts (message p) \<noteq> ts (message p) \<or> truthy (parent_user_id (message p))))
   \<and> (isThreadReply p \<longrightarrow>
        sessionKey x p
          = threadScopedKey x (baseSessionKey x p) (orDefault (thread_ts (message p)) [])
        \<and> (tk_parentSessionKey (threadKeys x p) = Some (baseSessionKey x p))
            = threadInheritParent (ctx p)
        \<and> (tk_parentSessionKey (threadKeys x p) = None) = (\<not> threadInheritParent (ctx p)))
   \<and> (\<not> isThreadReply p \<longrightarrow>
        sessionKey x p = baseSessionKey x p \<and> tk_parentSessionKey (threadKeys x p) = None)
   \<and> (\<forall>out. returned (prepareSlackMessage x st p) = Prepared out \<longrightarrow>
        SessionKey (prepared_ctxPayload out) = sessionKey x p
        \<and> ParentSessionKey (prepared_ctxPayload out) = tk_parentSessionKey (threadKeys x p))"
proof -
  have a: "isThreadReply p
     = (truthy (thread_ts (message p))
        \<and> (thread_ts (message p) \<noteq> ts (message p) \<or> truthy (parent_user_id (message p))))"
    by (cases "thread_ts (message p)") (simp_all add: isThreadReply_def hasThreadTs_def threadTs_def)
  have b: "sessionKey x p
          = threadScopedKey x (baseSessionKey x p) (orDefault (thread_ts (message p)) [])
        \<and> (tk_parentSessionKey (threadKeys x p) = Some (baseSessionKey x p))
            = threadInheritParent (ctx p)
        \<and> (tk_parentSessionKey (threadKeys x p) = None) = (\<not> threadInheritParent (ctx p))"
    if "isThreadReply p"
  proof -
    from that obtain t where t: "thread_ts (message p) = Some t"
      by (cases "thread_ts (message p)") (auto simp: isThreadReply_def hasThreadTs_def threadTs_def)
    show ?thesis
      using that t
      by (simp add: sessionKey_def threadKeys_def resolveThreadSessionKeys_def threadTs_def)
  qed
  have c: "sessionKey x p = baseSessionKey x p \<and> tk_parentSessionKey (threadKeys x p) = None"
    if "\<not> isThreadReply p"
    using that by (simp add: sessionKey_def threadKeys_def resolveThreadSessionKeys_def)
  have d: "SessionKey (prepared_ctxPayload out) = sessionKey x p
        \<and> ParentSessionKey (prepared_ctxPayload out) = tk_parentSessionKey (threadKeys x p)"
    if "returned (prepareSlackMessage x st p) = Prepared out" for out
    using returned_Prepared [OF that] by (simp add: prepared_def ctxPayload_def)
  from a b c d show ?thesis by blast
qed

text \<open>
  A reply in a thread the bot started, under a context that inherits the parent, and the
  same message outside any thread.
\<close>

theorem thread_reply_session_keys_witness:
  "isThreadReply (exampleParams (roomMessage\<lparr> thread_ts := Some ''1699999999.000001'',
                                    parent_user_id := Some ''UBOT'' \<rparr>))
   \<and> threadInheritParent (ctx (exampleParams roomMessage))
   \<and> returned (prepareSlackMessage exampleExternals Map.empty
        (exampleParams (roomMessage\<lparr> thread_ts := Some ''1699999999.000001'',
                                    parent_user_id := Some ''UBOT'' \<rparr>)))
      = Prepared (prepared exampleExternals
          (exampleParams (roomMessage\<lparr> thread_ts := Some ''1699999999.000001'',
                                    parent_user_id := Some ''UBOT'' \<rparr>)))
   \<and> SessionKey (prepared_ctxPayload (prepared exampleExternals
          (exampleParams (roomMessage\<lparr> thread_ts := Some ''1699999999.000001'',
                                    parent_user_id := Some ''UBOT'' \<rparr>))))
      = ''agent:main:slack:channel:C1:thread:1699999999.000001''
   \<and> ParentSessionKey (prepared_ctxPayload (prepared exampleExternals
          (exampleParams (roomMessage\<lparr> thread_ts := Some ''1699999999.000001'',
                                    parent_user_id := Some ''UBOT'' \<rparr>))))
      = Some ''agent:main:slack:channel:C1''
   \<and> \<not> isThreadReply (exampleParams roomMessage)
   \<and> sessionKey exampleExternals (exampleParams roomMessage) = ''agent:main:slack:channel:C1''
   \<and> tk_parentSessionKey (threadKeys exampleExternals (exampleParams roomMessage)) = None"
proof -
  let ?p = "exampleParams (roomMessage\<lparr> thread_ts := Some ''1699999999.000001'',
                                    parent_user_id := Some ''UBOT'' \<rparr>)"
  let ?q = "exampleParams roomMessage"
  have tr: "isThreadReply ?p" by code_simp
  have inh: "threadInheritParent (ctx ?q)" "threadInheritParent (ctx ?p)" by code_simp+
  have r: "returned (prepareSlackMessage exampleExternals Map.empty ?p)
             = Prepared (prepared exampleExternals ?p)" by code_simp
  have k: "threadScopedKey exampleExternals (baseSessionKey exampleExternals ?p)
             (orDefault (thread_ts (message ?p)) [])
           = ''agent:main:slack:channel:C1:thread:1699999999.000001''" by code_simp
  have b: "baseSessionKey exampleExternals ?p = ''agent:main:slack:channel:C1''"
          "baseSessionKey exampleExternals ?q = ''agent:main:slack:channel:C1''" by code_simp+
  have nt: "\<not> isThreadReply ?q" by code_simp
  from thread_reply_session_keys [of ?p exampleExternals Map.empty]
       thread_reply_session_keys [of ?q exampleExternals Map.empty] tr inh r k b nt
  show ?thesis by simp
qed

subsection \<open>Body resolution\<close>

text \<open>
  C7. For every message that passes all earlier gates: if the trimmed text is empty and
  media resolution yields no (non-empty) placeholder, \<open>prepareSlackMessage\<close> returns
  \<^verbatim>\<open>null\<close>; otherwise it returns the envelope, whose body is the trimmed text when that is
  non-empty and else the media placeholder.
\<close>

theorem body_resolution:
  assumes pass: "passesGates x st p"
  shows "(trim (orDefault (msg_text (message p)) []) = []
            \<and> \<not> truthy (Option.bind (media x p) media_placeholder)
          \<longrightarrow> returned (prepareSlackMessage x st p) = Dropped EmptyBody)
       \<and> (trim (orDefault (msg_text (message p)) []) \<noteq> []
          \<longrightarrow> returned (prepareSlackMessage x st p) = Prepared (prepared x p)
              \<and> RawBody (prepared_ctxPayload (prepared x p))
                  = trim (orDefault (msg_text (message p)) []))
       \<and> (trim (orDefault (msg_text (message p)) []) = []
            \<and> truthy (Option.bind (media x p) media_placeholder)
          \<longrightarrow> returned (prepareSlackMessage x st p) = Prepared (prepared x p)
              \<and> Some (RawBody (prepared_ctxPayload (prepared x p)))
                  = Option.bind (media x p) media_placeholder)"
proof -
  have raw: "RawBody (prepared_ctxPayload (prepared x p)) = rawBody x p"
    by (simp add: prepared_def ctxPayload_def)
  have ret: "returned (prepareSlackMessage x st p) =
               (if rawBody x p = [] then Dropped EmptyBody else Prepared (prepared x p))"
    by (simp add: prepare_pass [OF pass] bodyAndEnvelope_cases)
  show ?thesis
  proof (cases "Option.bind (media x p) media_placeholder")
    case None
    then show ?thesis by (simp add: ret raw rawBody_def Let_def)
  next
    case (Some ph)
    then show ?thesis by (simp add: ret raw rawBody_def Let_def)
  qed
qed

text \<open>
  A reply of blanks only in a thread of the bot, without files; the room message with its
  text; and a message without text whose file resolves to a placeholder.
\<close>

theorem body_resolution_witness:
  "passesGates exampleExternals Map.empty
      (exampleParams (roomMessage\<lparr> msg_text := Some ''  '', thread_ts := Some ''1699999999.000001'',
                                   parent_user_id := Some ''UBOT'' \<rparr>))
   \<and> returned (prepareSlackMessage exampleExternals Map.empty
      (exampleParams (roomMessage\<lparr> msg_text := Some ''  '', thread_ts := Some ''1699999999.000001'',
                                   parent_user_id := Some ''UBOT'' \<rparr>))) = Dropped EmptyBody
   \<and> passesGates exampleExternals Map.empty (exampleParams roomMessage)
   \<and> RawBody (prepared_ctxPayload (prepared exampleExternals (exampleParams roomMessage)))
       = ''hello <@UBOT>''
   \<and> passesGates (exampleExternals\<lparr> resolveSlackMedia := (\<lambda>f. Some mediaExample) \<rparr>) Map.empty
       (exampleParams (directMessage\<lparr> user := Some ''UOWNER'', msg_text := None,
                                      files := Some [''F1''] \<rparr>))
   \<and> RawBody (prepared_ctxPayload
        (prepared (exampleExternals\<lparr> resolveSlackMedia := (\<lambda>f. Some mediaExample) \<rparr>)
           (exampleParams (directMessage\<lparr> user := Some ''UOWNER'', msg_text := None,
                                          files := Some [''F1''] \<rparr>))))
       = ''<media:image>''"
proof -
  let ?p = "exampleParams (roomMessage\<lparr> msg_text := Some ''  '',
               thread_ts := Some ''1699999999.000001'', parent_user_id := Some ''UBOT'' \<rparr>)"
  let ?q = "exampleParams roomMessage"
  let ?y = "exampleExternals\<lparr> resolveSlackMedia := (\<lambda>f. Some mediaExample) \<rparr>"
  let ?m = "exampleParams (directMessage\<lparr> user := Some ''UOWNER'', msg_text := None,
                                          files := Some [''F1''] \<rparr>)"
  have pp: "passesGates exampleExternals Map.empty ?p" by code_simp
  have tp: "trim (orDefault (msg_text (message ?p)) []) = []" by code_simp
  have mp: "\<not> truthy (Option.bind (media exampleExternals ?p) media_placeholder)" by code_simp
  have pq: "passesGates exampleExternals Map.empty ?q" by code_simp
  have tq: "trim (orDefault (msg_text (message ?q)) []) = ''hello <@UBOT>''" by code_simp
  have pm: "passesGates ?y Map.empty ?m" by code_simp
  have tm: "trim (orDefault (msg_text (message ?m)) []) = []" by code_simp
  have mm: "Option.bind (media ?y ?m) media_placeholder = Some ''<media:image>''" by code_simp
  from body_resolution [OF pp] body_resolution [OF pq] body_resolution [OF pm]
    pp tp mp pq tq pm tm mm
  show ?thesis by simp
qed

subsection \<open>The acknowledgment reaction\<close>

lemma dmAccessPolicy_effects:
  "e \<in> set (fst (snd (dmAccessPolicy x st p))) \<Longrightarrow> \<not> isReaction e"
  by (auto simp: dmAccessPolicy_def upsertChannelPairingRequest_def
           split: if_splits option.splits)

text \<open>A reaction call among the effects means that the promise was created.\<close>

lemma reaction_effects:
  assumes "list_ex isReaction (effects (prepareSlackMessage x st p))"
  shows "ackReactionPromise x p"
proof (cases "earlyGates x p")
  case (Some d)
  with assms show ?thesis by (simp add: prepare_early)
next
  case None
  obtain d effs st' where dm: "dmAccessPolicy x st p = (d, effs, st')"
    by (cases "dmAccessPolicy x st p") auto
  have noreact: "\<not> list_ex isReaction effs"
    using dmAccessPolicy_effects [of _ x st p] dm by (auto simp: list_ex_iff)
  show ?thesis
  proof (rule ccontr)
    assume n: "\<not> ackReactionPromise x p"
    have "\<not> list_ex isReaction (effects (prepareSlackMessage x st p))"
      using None dm noreact n
      by (auto simp: prepareSlackMessage_def bodyAndEnvelope_cases ackEffects_def
               split: option.splits)
    with assms show False by simp
  qed
qed

text \<open>
  C8. Under the scope \<^verbatim>\<open>group-mentions\<close> (the specification's group-mentions-only),
  \<open>shouldAckReaction\<close> holds iff a reaction symbol is configured and the message is
  room-kind and mention is required for the channel and mention detection is possible and
  \<open>effectiveWasMentioned\<close> holds; so a reaction call is issued only if these four conditions
  hold. Under every scope, when no reaction symbol is configured, \<open>shouldAckReaction\<close> is
  false, no reaction call is issued and a returned envelope carries no reaction promise.
  A scope other than the four the function names never gives a reaction.
\<close>

theorem ack_reaction_scope:
  "(ackReactionScope (ctx p) = ''group-mentions'' \<longrightarrow>
      (shouldAckReaction x p
         = (truthy (ackReaction x p) \<and> isRoom x p \<and> truthyB (shouldRequireMention x p)
            \<and> canDetectMention' x p \<and> effectiveWasMentioned' x p))
      \<and> (list_ex isReaction (effects (prepareSlackMessage x st p)) \<longrightarrow>
           isRoom x p \<and> truthyB (shouldRequireMention x p) \<and> canDetectMention' x p
           \<and> effectiveWasMentioned' x p))
   \<and> (\<not> truthy (ackReaction x p) \<longrightarrow>
        \<not> shouldAckReaction x p
        \<and> \<not> list_ex isReaction (effects (prepareSlackMessage x st p))
        \<and> (\<forall>out. returned (prepareSlackMessage x st p) = Prepared out \<longrightarrow>
              \<not> prepared_ackReactionPromise out))
   \<and> (ackReactionScope (ctx p) \<notin> {''all'', ''direct'', ''group-all'', ''group-mentions''} \<longrightarrow>
        \<not> shouldAckReaction x p
        \<and> \<not> list_ex isReaction (effects (prepareSlackMessage x st p)))"
proof -
  have scope: "shouldAckReaction x p
         = (truthy (ackReaction x p) \<and> isRoom x p \<and> truthyB (shouldRequireMention x p)
            \<and> canDetectMention' x p \<and> effectiveWasMentioned' x p)"
    if "ackReactionScope (ctx p) = ''group-mentions''"
    using that by (simp add: shouldAckReaction_def)
  have sched: "list_ex isReaction (effects (prepareSlackMessage x st p)) \<Longrightarrow> shouldAckReaction x p"
    using reaction_effects [of x st p] by (simp add: ackReactionPromise_def)
  have none: "\<not> shouldAckReaction x p" if "\<not> truthy (ackReaction x p)"
    using that by (simp add: shouldAckReaction_def)
  have out: "\<not> prepared_ackReactionPromise out"
    if "\<not> truthy (ackReaction x p)" "returned (prepareSlackMessage x st p) = Prepared out" for out
    using returned_Prepared [OF that(2)] none [OF that(1)]
    by (simp add: prepared_def ackReactionPromise_def)
  have other: "\<not> shouldAckReaction x p"
    if "ackReactionScope (ctx p) \<notin> {''all'', ''direct'', ''group-all'', ''group-mentions''}"
    using that by (simp add: shouldAckReaction_def)
  show ?thesis using scope sched none out other by blast
qed

text \<open>
  The room message mentions the bot under the scope \<^verbatim>\<open>group-mentions\<close>: the reaction is
  sent. Without a configured symbol, or under the scope \<^verbatim>\<open>off\<close>, nothing is sent.
\<close>

theorem ack_reaction_scope_witness:
  "ackReactionScope (ctx (exampleParams roomMessage)) = ''group-mentions''
   \<and> effects (prepareSlackMessage exampleExternals Map.empty (exampleParams roomMessage))
       = [ReactSlackMessage ''C1'' ''1700000000.000100'' ''eyes'']
   \<and> isRoom exampleExternals (exampleParams roomMessage)
   \<and> truthyB (shouldRequireMention exampleExternals (exampleParams roomMessage))
   \<and> canDetectMention' exampleExternals (exampleParams roomMessage)
   \<and> effectiveWasMentioned' exampleExternals (exampleParams roomMessage)
   \<and> \<not> truthy (ackReaction (exampleExternals\<lparr> resolveAckReaction := (\<lambda>a. None) \<rparr>)
                  (exampleParams roomMessage))
   \<and> \<not> list_ex isReaction (effects (prepareSlackMessage
          (exampleExternals\<lparr> resolveAckReaction := (\<lambda>a. None) \<rparr>) Map.empty
          (exampleParams roomMessage)))
   \<and> ackReactionScope (ctx ((exampleParams roomMessage)
          \<lparr> ctx := exampleContext\<lparr> ackReactionScope := ''off'' \<rparr> \<rparr>)) = ''off''
   \<and> \<not> list_ex isReaction (effects (prepareSlackMessage exampleExternals Map.empty
          ((exampleParams roomMessage)
             \<lparr> ctx := exampleContext\<lparr> ackReactionScope := ''off'' \<rparr> \<rparr>)))"
proof -
  let ?p = "exampleParams roomMessage"
  let ?y = "exampleExternals\<lparr> resolveAckReaction := (\<lambda>a. None) \<rparr>"
  let ?o = "(exampleParams roomMessage)\<lparr> ctx := exampleContext\<lparr> ackReactionScope := ''off'' \<rparr> \<rparr>"
  have sc: "ackReactionScope (ctx ?p) = ''group-mentions''" by code_simp
  have ef: "effects (prepareSlackMessage exampleExternals Map.empty ?p)
              = [ReactSlackMessage ''C1'' ''1700000000.000100'' ''eyes'']" by code_simp
  have no: "\<not> truthy (ackReaction ?y ?p)" by code_simp
  have off: "ackReactionScope (ctx ?o) = ''off''" by code_simp
  from ack_reaction_scope [of ?p exampleExternals Map.empty] ack_reaction_scope [of ?p ?y Map.empty]
    ack_reaction_scope [of ?o exampleExternals Map.empty] sc ef no off
  show ?thesis by simp
qed

subsection \<open>Disabled direct messages\<close>

lemma dmAccessPolicy_disabled:
  assumes "isDirectMessage x p" and "user (message p) = Some u" and "u \<noteq> []"
  shows "(fst (dmAccessPolicy x st p) = Some DmsDisabled)
           = (\<not> dmEnabled (ctx p) \<or> dmPolicy (ctx p) = ''disabled'')"
  using assms
  by (simp add: dmAccessPolicy_def upsertChannelPairingRequest_def split: option.splits)

lemma roomGates_not_disabled: "roomGates x p \<noteq> Some DmsDisabled"
  by (simp add: roomGates_def)

lemma bodyAndEnvelope_not_disabled: "fst (bodyAndEnvelope x p) \<noteq> Dropped DmsDisabled"
  by (simp add: bodyAndEnvelope_cases)

text \<open>
  C9. For every direct message, if the context's \<open>dmEnabled\<close> flag is false,
  \<open>prepareSlackMessage\<close> returns \<^verbatim>\<open>null\<close>, also when the policy is \<^verbatim>\<open>open\<close> and the sender is
  on the allow list. For a direct message that passes the bot, sender and channel checks,
  the return for disabled direct messages is taken exactly when \<open>dmEnabled\<close> is false or
  the policy is \<^verbatim>\<open>disabled\<close>.
\<close>

theorem dm_disabled_drop:
  assumes dm: "isDirectMessage x p"
  shows "(\<not> dmEnabled (ctx p) \<longrightarrow> returnsNull (returned (prepareSlackMessage x st p)))
       \<and> (earlyGates x p = None \<longrightarrow>
            (returned (prepareSlackMessage x st p) = Dropped DmsDisabled)
              = (\<not> dmEnabled (ctx p) \<or> dmPolicy (ctx p) = ''disabled''))"
proof (cases "earlyGates x p")
  case (Some d)
  then show ?thesis using returned_early_null [of x p st] by simp
next
  case None
  from earlyGates_dm_user [OF None dm] obtain u where u: "user (message p) = Some u" "u \<noteq> []"
    by blast
  note dis = dmAccessPolicy_disabled [OF dm u, of st]
  have iff: "(returned (prepareSlackMessage x st p) = Dropped DmsDisabled)
               = (fst (dmAccessPolicy x st p) = Some DmsDisabled)"
    using roomGates_not_disabled [of x p] bodyAndEnvelope_not_disabled [of x p]
    by (auto simp: returned_after_early [OF None] split: option.splits)
  show ?thesis
    using None iff dis by auto
qed

text \<open>
  The allow-listed sender \<^verbatim>\<open>UOWNER\<close> writes a direct message under the policy \<^verbatim>\<open>open\<close>
  while \<open>dmEnabled\<close> is false.
\<close>

theorem dm_disabled_drop_witness:
  "isDirectMessage exampleExternals
      \<lparr> ctx = exampleContext\<lparr> dmEnabled := False, dmPolicy := ''open'' \<rparr>,
        account = exampleAccount, message = directMessage\<lparr> user := Some ''UOWNER'' \<rparr>,
        opts = exampleOpts \<rparr>
   \<and> allowListMatches exampleExternals (allowFromLower exampleExternals) ''UOWNER''
   \<and> returned (prepareSlackMessage exampleExternals Map.empty
        \<lparr> ctx = exampleContext\<lparr> dmEnabled := False, dmPolicy := ''open'' \<rparr>,
          account = exampleAccount, message = directMessage\<lparr> user := Some ''UOWNER'' \<rparr>,
          opts = exampleOpts \<rparr>) = Dropped DmsDisabled"
proof -
  let ?p = "\<lparr> ctx = exampleContext\<lparr> dmEnabled := False, dmPolicy := ''open'' \<rparr>,
        account = exampleAccount, message = directMessage\<lparr> user := Some ''UOWNER'' \<rparr>,
        opts = exampleOpts \<rparr>"
  have dm: "isDirectMessage exampleExternals ?p" by code_simp
  have al: "allowListMatches exampleExternals (allowFromLower exampleExternals) ''UOWNER''"
    by code_simp
  have eg: "earlyGates exampleExternals ?p = None" by code_simp
  have off: "\<not> dmEnabled (ctx ?p)" by code_simp
  from dm_disabled_drop [OF dm, of Map.empty] eg off dm al show ?thesis by blast
qed

subsection \<open>The reply target\<close>

lemma earlyGates_not_reply: "earlyGates x p \<noteq> Some EmptyReplyTarget"
  by (simp add: earlyGates_def)

lemma dmAccessPolicy_not_reply: "fst (dmAccessPolicy x st p) \<noteq> Some EmptyReplyTarget"
  by (simp add: dmAccessPolicy_def upsertChannelPairingRequest_def split: option.splits)

lemma roomGates_not_reply: "roomGates x p \<noteq> Some EmptyReplyTarget"
  by (simp add: roomGates_def)

text \<open>
  C10. The computed reply target (the \<open>To\<close> field) is a non-empty string that starts with
  \<^verbatim>\<open>user:\<close> or \<^verbatim>\<open>channel:\<close>, so the last return of the function, for an empty reply
  target, is never taken: a \<^verbatim>\<open>null\<close> return comes from one of the earlier gates. A
  returned envelope carries this target.
\<close>

theorem reply_target_never_empty:
  "returned (prepareSlackMessage x st p) \<noteq> Dropped EmptyReplyTarget
   \<and> replyTarget x p = slackTo x p
   \<and> slackTo x p \<noteq> []
   \<and> (prefix ''user:'' (slackTo x p) \<or> prefix ''channel:'' (slackTo x p))
   \<and> (\<forall>out. returned (prepareSlackMessage x st p) = Prepared out \<longrightarrow>
         To (prepared_ctxPayload out) = slackTo x p \<and> prepared_replyTarget out = slackTo x p)"
proof -
  have a: "returned (prepareSlackMessage x st p) \<noteq> Dropped EmptyReplyTarget"
  proof (cases "earlyGates x p")
    case None
    show ?thesis
      using dmAccessPolicy_not_reply [of x st p] roomGates_not_reply [of x p]
      by (auto simp: returned_after_early [OF None] bodyAndEnvelope_cases split: option.splits)
  next
    case (Some d)
    then show ?thesis using earlyGates_not_reply [of x p] by (auto simp: prepare_early)
  qed
  have b: "replyTarget x p = slackTo x p"
    by (simp add: replyTarget_def ctxPayload_def)
  have c: "prefix ''user:'' (slackTo x p) \<or> prefix ''channel:'' (slackTo x p)"
    by (simp add: slackTo_def)
  have d: "To (prepared_ctxPayload out) = slackTo x p \<and> prepared_replyTarget out = slackTo x p"
    if "returned (prepareSlackMessage x st p) = Prepared out" for out
    using returned_Prepared [OF that] b by (simp add: prepared_def ctxPayload_def)
  from a b c d slackTo_nonempty [of x p] show ?thesis by blast
qed

text \<open>The room message, and a direct message of the allow-listed sender.\<close>

theorem reply_target_never_empty_witness:
  "returned (prepareSlackMessage exampleExternals Map.empty (exampleParams roomMessage))
     = Prepared (prepared exampleExternals (exampleParams roomMessage))
   \<and> To (prepared_ctxPayload (prepared exampleExternals (exampleParams roomMessage)))
       = ''channel:C1''
   \<and> returned (prepareSlackMessage exampleExternals Map.empty
        (exampleParams (directMessage\<lparr> user := Some ''UOWNER'' \<rparr>)))
     = Prepared (prepared exampleExternals (exampleParams (directMessage\<lparr> user := Some ''UOWNER'' \<rparr>)))
   \<and> To (prepared_ctxPayload (prepared exampleExternals
        (exampleParams (directMessage\<lparr> user := Some ''UOWNER'' \<rparr>)))) = ''user:UOWNER''"
proof -
  let ?p = "exampleParams roomMessage"
  let ?q = "exampleParams (directMessage\<lparr> user := Some ''UOWNER'' \<rparr>)"
  have r: "returned (prepareSlackMessage exampleExternals Map.empty ?p)
             = Prepared (prepared exampleExternals ?p)" by code_simp
  have s: "slackTo exampleExternals ?p = ''channel:C1''" by code_simp
  have r': "returned (prepareSlackMessage exampleExternals Map.empty ?q)
             = Prepared (prepared exampleExternals ?q)" by code_simp
  have s': "slackTo exampleExternals ?q = ''user:UOWNER''" by code_simp
  from reply_target_never_empty [of exampleExternals Map.empty ?p]
       reply_target_never_empty [of exampleExternals Map.empty ?q] r s r' s'
  show ?thesis by simp
qed


end
